theory Spec2Isabelle
  imports Complex_Main "HOL-Library.Char_ord" "HOL-Library.List_Lexorder" "HOL-Library.Multiset"
begin

section \<open>where-was-i: the filtering and visit pipeline of \<open>where_was_i/lib.py\<close>\<close>

text \<open>
  A pandas DataFrame is modelled row-wise: a frame is the list of its rows in index order,
  a boolean Series over the frame is a list of booleans in the same order.  Python floats
  are modelled as real numbers, \<open>np.sin\<close>, \<open>np.cos\<close>, \<open>np.arcsin\<close> and \<open>np.sqrt\<close> as the
  functions of the same name on the reals.  Exceptions are values of type \<open>error\<close>; a
  function that can raise returns \<open>error + 'a\<close>.
\<close>

datatype error =
    ValueError
  | TypeError
  | IndexError
  | AttributeError
  | OutOfBoundsDatetime

subsection \<open>Calendar arithmetic of pandas timestamps\<close>

text \<open>
  A day is counted from 1970-01-01 (day 0) in the proleptic Gregorian calendar, as a pandas
  Timestamp at midnight does.  \<open>days_from_civil\<close> and \<open>civil_from_days\<close> convert between
  the day count and (year, month, day).
\<close>

type_synonym ymd = "int \<times> int \<times> int"

definition days_from_civil :: "ymd \<Rightarrow> int" where
  "days_from_civil c =
     (case c of (y0, m, d) \<Rightarrow>
        let y = (if m \<le> 2 then y0 - 1 else y0);
            era = y div 400;
            yoe = y - era * 400;
            doy = (153 * (if m > 2 then m - 3 else m + 9) + 2) div 5 + d - 1;
            doe = yoe * 365 + yoe div 4 - yoe div 100 + doy
        in era * 146097 + doe - 719468)"

definition civil_from_days :: "int \<Rightarrow> ymd" where
  "civil_from_days n =
     (let z = n + 719468;
          era = z div 146097;
          doe = z - era * 146097;
          yoe = (doe - doe div 1460 + doe div 36524 - doe div 146096) div 365;
          doy = doe - (365 * yoe + yoe div 4 - yoe div 100);
          mp = (5 * doy + 2) div 153;
          d = doy - (153 * mp + 2) div 5 + 1;
          m = (if mp < 10 then mp + 3 else mp - 9);
          y = yoe + era * 400
      in (if m \<le> 2 then y + 1 else y, m, d))"

definition is_leap :: "int \<Rightarrow> bool" where
  "is_leap y = (y mod 4 = 0 \<and> (y mod 100 \<noteq> 0 \<or> y mod 400 = 0))"

definition days_in_month :: "int \<Rightarrow> int \<Rightarrow> int" where
  "days_in_month y m =
     (if m = 2 then (if is_leap y then 29 else 28)
      else if m = 4 \<or> m = 6 \<or> m = 9 \<or> m = 11 then 30 else 31)"

text \<open>
  A configured date \<open>YYYY-MM-DD\<close> is held as its three numbers.  \<open>to_timestamp\<close> is the
  conversion \<open>pd.date_range\<close> applies to its \<open>start\<close> and \<open>end\<close>: a date that is not in the
  calendar raises \<open>ValueError\<close>, one outside the range of a nanosecond Timestamp
  (1677-09-22 to 2262-04-11) raises \<open>OutOfBoundsDatetime\<close>.
\<close>

definition to_timestamp :: "ymd \<Rightarrow> error + int" where
  "to_timestamp c =
     (case c of (y, m, d) \<Rightarrow>
        if 1 \<le> m \<and> m \<le> 12 \<and> 1 \<le> d \<and> d \<le> days_in_month y m
        then (let n = days_from_civil c
              in if - 106751 \<le> n \<and> n \<le> 106751 then Inr n else Inl OutOfBoundsDatetime)
        else Inl ValueError)"

definition digit_char :: "int \<Rightarrow> char" where
  "digit_char n = char_of (48 + nat n)"

definition pad2 :: "int \<Rightarrow> string" where
  "pad2 n = [digit_char (n div 10 mod 10), digit_char (n mod 10)]"

definition pad4 :: "int \<Rightarrow> string" where
  "pad4 n = pad2 (n div 100) @ pad2 n"

text \<open>\<open>strftime("%Y-%m-%d")\<close> of the day \<open>n\<close>.\<close>

definition strftime_date :: "int \<Rightarrow> string" where
  "strftime_date n =
     (case civil_from_days n of (y, m, d) \<Rightarrow> pad4 y @ ''-'' @ pad2 m @ ''-'' @ pad2 d)"

text \<open>
  \<open>pd.date_range(start, end)\<close> with the default daily frequency, formatted: every day from
  \<open>start\<close> to \<open>end\<close>, both included; no day when \<open>end\<close> is before \<open>start\<close>.
\<close>

definition date_range :: "int \<Rightarrow> int \<Rightarrow> string list" where
  "date_range start end = map strftime_date [start..end]"

subsection \<open>Configuration\<close>

text \<open>
  A vacation entry is a plain date or a dict from keys to dates.  An area has the keys
  \<open>tag\<close>, \<open>radius\<close>, \<open>lat\<close>, \<open>lng\<close>.
\<close>

datatype vacation_entry =
    Plain ymd
  | Dict "string \<rightharpoonup> ymd"

record area_cfg =
  tag :: string
  radius :: real
  alat :: real
  alng :: real

record bank_holidays_cfg =
  state :: string
  province :: string

record cfg =
  vacation :: "vacation_entry list"
  worktimes :: "string list"
  workdays :: "int list"
  bank_holidays_of :: bank_holidays_cfg
  areas :: "area_cfg list"

subsection \<open>\<open>vacation_days\<close>\<close>

text \<open>
  One pass of the loop body: \<open>start\<close> and \<open>end\<close> of the entry, then the days of
  \<open>pd.date_range\<close>.  An entry that is a dict without the key \<open>from\<close> is itself passed as
  \<open>start\<close>, which \<open>pd.date_range\<close> rejects with \<open>TypeError\<close>.
\<close>

definition entry_bounds :: "vacation_entry \<Rightarrow> error + (ymd \<times> ymd)" where
  "entry_bounds vac =
     (case vac of
        Plain d \<Rightarrow> Inr (d, d)
      | Dict m \<Rightarrow>
          (case m ''from'' of
             None \<Rightarrow> Inl TypeError
           | Some start \<Rightarrow>
               (case m ''to'' of
                  Some end \<Rightarrow> Inr (start, end)
                | None \<Rightarrow> Inr (start, start))))"

definition entry_days :: "vacation_entry \<Rightarrow> error + string list" where
  "entry_days vac =
     (case entry_bounds vac of
        Inl e \<Rightarrow> Inl e
      | Inr (start, end) \<Rightarrow>
          (case to_timestamp start of
             Inl e \<Rightarrow> Inl e
           | Inr s \<Rightarrow>
               (case to_timestamp end of
                  Inl e \<Rightarrow> Inl e
                | Inr t \<Rightarrow> Inr (date_range s t))))"

fun vacation_loop :: "string list \<Rightarrow> vacation_entry list \<Rightarrow> error + string list" where
  "vacation_loop acc [] = Inr acc"
| "vacation_loop acc (vac # rest) =
     (case entry_days vac of
        Inl e \<Rightarrow> Inl e
      | Inr ds \<Rightarrow> vacation_loop (acc @ ds) rest)"

definition vacation_days :: "cfg \<Rightarrow> error + string list" where
  "vacation_days c = vacation_loop [] (vacation c)"

subsection \<open>\<open>filter_year\<close>\<close>

text \<open>
  A raw point has the columns of the location history.  The cell \<open>timestampMs\<close> is a number
  (or text that \<open>pd.to_numeric\<close> reads as that number), or text that \<open>pd.to_numeric\<close>
  rejects.  The column \<open>time\<close> holds the instant in milliseconds since the epoch; its
  local calendar fields are those of the instant shifted by the UTC offset of the zone,
  in milliseconds.
  The offsets of \<open>Europe/Berlin\<close> come from the time zone database, which is not part of
  the repository: the offset at an instant is the parameter \<open>utcoffset\<close>.
\<close>

datatype raw_ts = Numeric int | Unparseable

record raw_point =
  timestampMs :: raw_ts
  latitudeE7 :: int
  longitudeE7 :: int
  accuracy :: int

record timed_point = raw_point +
  time :: int

definition to_numeric :: "raw_ts \<Rightarrow> error + int" where
  "to_numeric c = (case c of Numeric n \<Rightarrow> Inr n | Unparseable \<Rightarrow> Inl ValueError)"

text \<open>
  \<open>pd.to_datetime(n, unit='ms')\<close>: the instant must fit a signed 64-bit count of
  nanoseconds.
\<close>

definition to_datetime :: "int \<Rightarrow> error + int" where
  "to_datetime n =
     (if - 9223372036854775807 \<le> n * 1000000 \<and> n * 1000000 \<le> 9223372036854775807
      then Inr n else Inl OutOfBoundsDatetime)"

text \<open>A whole-column operation raises as soon as one cell raises.\<close>

fun column :: "('a \<Rightarrow> error + 'b) \<Rightarrow> 'a list \<Rightarrow> error + 'b list" where
  "column f [] = Inr []"
| "column f (x # xs) =
     (case f x of
        Inl e \<Rightarrow> Inl e
      | Inr y \<Rightarrow> (case column f xs of Inl e \<Rightarrow> Inl e | Inr ys \<Rightarrow> Inr (y # ys)))"

text \<open>
  \<open>.dt.year\<close> of an instant in a zone whose offset at that instant is \<open>off\<close>.  pandas
  holds the local instant, the instant plus the offset, as a signed 64-bit count of
  nanoseconds: a sum outside that range wraps around, and the lowest 64-bit value is
  \<open>NaT\<close>, which has no year.
\<close>

definition wrap64 :: "int \<Rightarrow> int" where
  "wrap64 n = (n + 9223372036854775808) mod 18446744073709551616 - 9223372036854775808"

definition dt_year :: "int \<Rightarrow> int \<Rightarrow> int option" where
  "dt_year off t =
     (let local = wrap64 ((t + off) * 1000000)
      in if local = - 9223372036854775808 then None
         else Some (fst (civil_from_days (local div 86400000000000))))"

definition with_time :: "raw_point \<Rightarrow> int \<Rightarrow> timed_point" where
  "with_time x t =
     \<lparr>timestampMs = timestampMs x, latitudeE7 = latitudeE7 x,
      longitudeE7 = longitudeE7 x, accuracy = accuracy x, time = t\<rparr>"

definition filter_year ::
  "(int \<Rightarrow> int) \<Rightarrow> raw_point list \<Rightarrow> int \<Rightarrow> error + timed_point list" where
  "filter_year utcoffset df year =
     (case column to_numeric (map timestampMs df) of
        Inl e \<Rightarrow> Inl e
      | Inr ns \<Rightarrow>
          (case column to_datetime ns of
             Inl e \<Rightarrow> Inl e
           | Inr ts \<Rightarrow>
               Inr (filter (\<lambda>x. dt_year (utcoffset (time x)) (time x) = Some year)
                      (map2 with_time df ts))))"

subsection \<open>The masks\<close>

text \<open>
  A point after \<open>clean_lhdf\<close>: \<open>time\<close> as above, \<open>date\<close> (\<open>YYYY-MM-DD\<close>), \<open>weekday\<close>
  (\<open>%w\<close>), \<open>daytime\<close> (\<open>HH:MM\<close>) as text, \<open>lat\<close> and \<open>lng\<close> in decimal degrees.
  Text is compared as Python compares \<open>str\<close>: lexicographically by character code.
\<close>

record point =
  time :: int
  date :: string
  weekday :: string
  daytime :: string
  lat :: real
  lng :: real

definition vacation_mask :: "point list \<Rightarrow> cfg \<Rightarrow> error + bool list" where
  "vacation_mask df c =
     (case vacation_days c of
        Inl e \<Rightarrow> Inl e
      | Inr vac \<Rightarrow> Inr (map (\<lambda>x. (date x \<in> set vac) = False) df))"

text \<open>\<open>Series.between(left, right)\<close> includes both ends.\<close>

definition between :: "string \<Rightarrow> string \<Rightarrow> string \<Rightarrow> bool" where
  "between x left right = (left \<le> x \<and> x \<le> right)"

definition worktime_mask :: "point list \<Rightarrow> cfg \<Rightarrow> error + bool list" where
  "worktime_mask df c =
     (case worktimes c of
        w0 # w1 # _ \<Rightarrow> Inr (map (\<lambda>x. between (daytime x) w0 w1) df)
      | _ \<Rightarrow> Inl IndexError)"

text \<open>
  \<open>astype(int)\<close> applies Python's \<open>int\<close> to every text cell of the column.  \<open>int\<close> is a
  builtin of the language, not part of the repository: \<open>py_int s\<close> is the number it
  reads from the text \<open>s\<close>, \<open>None\<close> where it raises \<open>ValueError\<close>.
\<close>

definition astype_int :: "(string \<Rightarrow> int option) \<Rightarrow> string \<Rightarrow> error + int" where
  "astype_int py_int s = (case py_int s of None \<Rightarrow> Inl ValueError | Some n \<Rightarrow> Inr n)"

definition workdays_mask ::
  "(string \<Rightarrow> int option) \<Rightarrow> point list \<Rightarrow> cfg \<Rightarrow> error + bool list" where
  "workdays_mask py_int df c =
     (case column (astype_int py_int) (map weekday df) of
        Inl e \<Rightarrow> Inl e
      | Inr ws \<Rightarrow> Inr (map (\<lambda>w. w \<in> set (workdays c)) ws))"

text \<open>
  The package \<open>holidays\<close> is not part of the repository: \<open>provider state province year\<close> is
  the list of holidays (as days) it gives, \<open>None\<close> when it has no calendar named \<open>state\<close>
  (\<open>getattr\<close> then raises \<open>AttributeError\<close>).
\<close>

definition bank_holidays ::
  "(string \<Rightarrow> string \<Rightarrow> int \<Rightarrow> int list option) \<Rightarrow> cfg \<Rightarrow> int \<Rightarrow> error + string list" where
  "bank_holidays provider c year =
     (case provider (state (bank_holidays_of c)) (province (bank_holidays_of c)) year of
        None \<Rightarrow> Inl AttributeError
      | Some ds \<Rightarrow> Inr (map strftime_date ds))"

definition bank_holiday_mask ::
  "(string \<Rightarrow> string \<Rightarrow> int \<Rightarrow> int list option) \<Rightarrow> point list \<Rightarrow> cfg \<Rightarrow> int
     \<Rightarrow> error + bool list" where
  "bank_holiday_mask provider df c year =
     (case bank_holidays provider c year of
        Inl e \<Rightarrow> Inl e
      | Inr hs \<Rightarrow> Inr (map (\<lambda>x. (date x \<in> set hs) = False) df))"

text \<open>
  \<open>reduce(lambda i, j: i & j, masks)\<close> folds from the left, starting with the first mask,
  and raises \<open>TypeError\<close> on an empty list.  \<open>df[mask]\<close> keeps the rows whose mask is true.
\<close>

definition mask_and :: "bool list \<Rightarrow> bool list \<Rightarrow> bool list" where
  "mask_and i j = map2 (\<and>) i j"

definition reduce :: "('a \<Rightarrow> 'a \<Rightarrow> 'a) \<Rightarrow> 'a list \<Rightarrow> error + 'a" where
  "reduce f xs = (case xs of [] \<Rightarrow> Inl TypeError | x # rest \<Rightarrow> Inr (foldl f x rest))"

definition select :: "'a list \<Rightarrow> bool list \<Rightarrow> 'a list" where
  "select df m = map fst (filter snd (zip df m))"

definition apply_masks :: "'a list \<Rightarrow> bool list list \<Rightarrow> error + 'a list" where
  "apply_masks df masks =
     (case reduce mask_and masks of
        Inl e \<Rightarrow> Inl e
      | Inr m \<Rightarrow> Inr (select df m))"

subsection \<open>\<open>haversine\<close>\<close>

definition radians :: "real \<Rightarrow> real" where
  "radians x = x * pi / 180"

definition haversine :: "real \<Rightarrow> real \<Rightarrow> real \<Rightarrow> real \<Rightarrow> bool \<Rightarrow> real \<Rightarrow> real" where
  "haversine lat1 lon1 lat2 lon2 to_radians earth_radius =
     (let p1 = (if to_radians then radians lat1 else lat1);
          l1 = (if to_radians then radians lon1 else lon1);
          p2 = (if to_radians then radians lat2 else lat2);
          l2 = (if to_radians then radians lon2 else lon2);
          a = (sin ((p2 - p1) / 2.0))\<^sup>2 + cos p1 * cos p2 * (sin ((l2 - l1) / 2.0))\<^sup>2
      in earth_radius * 2 * arcsin (sqrt a) * 1000)"

text \<open>The call with the default arguments \<open>to_radians = True\<close>, \<open>earth_radius = 6371\<close>.\<close>

definition distance :: "real \<Rightarrow> real \<Rightarrow> real \<Rightarrow> real \<Rightarrow> real" where
  "distance lat1 lon1 lat2 lon2 = haversine lat1 lon1 lat2 lon2 True 6371"

subsection \<open>\<open>assign_areas\<close>\<close>

text \<open>
  A frame whose columns are created while the function runs is a list of rows together
  with the names of the columns created so far; a cell of a column that exists but was
  never written for that row is \<open>None\<close> (NaN).  Reading a column that was not created
  raises \<open>AttributeError\<close>.
\<close>

record arow = point +
  in_area :: bool
  distTuple :: "(real \<times> string option) option"
  dist :: "real option"
  area :: "string option"

record 'r frame =
  rows :: "'r list"
  columns :: "string list"

definition add_col :: "string \<Rightarrow> string list \<Rightarrow> string list" where
  "add_col name cols = (if name \<in> set cols then cols else cols @ [name])"

text \<open>
  The columns of the frame once \<open>df.loc[:, "in_area"] = False\<close> has run on the copy, and
  a row of it.  On a frame without rows that assignment of a scalar to a new column
  raises \<open>ValueError\<close> (pandas cannot set a frame with no defined index and a scalar).
\<close>

definition base_columns :: "string list" where
  "base_columns = [''time'', ''date'', ''weekday'', ''daytime'', ''lat'', ''lng'', ''in_area'']"


definition init_row :: "point \<Rightarrow> arow" where
  "init_row x =
     \<lparr>time = time x, date = date x, weekday = weekday x, daytime = daytime x,
      lat = lat x, lng = lng x,
      in_area = False, distTuple = None, dist = None, area = None\<rparr>"

text \<open>The tuple the lambda computes for one row and one area.\<close>

definition dist_tuple :: "area_cfg \<Rightarrow> arow \<Rightarrow> real \<times> string option" where
  "dist_tuple a x =
     (let y = distance (lat x) (lng x) (alat a) (alng a)
      in (y, if y < radius a then Some (tag a) else None))"

text \<open>
  \<open>x[0]\<close>, \<open>x[1]\<close> and \<open>isna() == False\<close> for one row; subscripting a NaN cell raises
  \<open>TypeError\<close>.
\<close>

definition unpack :: "arow \<Rightarrow> error + arow" where
  "unpack x =
     (case distTuple x of
        None \<Rightarrow> Inl TypeError
      | Some (d, t) \<Rightarrow> Inr (x\<lparr>dist := Some d, area := t, in_area := (t \<noteq> None)\<rparr>))"

text \<open>
  One pass of the loop, for the area \<open>a = areas[area_idx]\<close>: the tuple is written to the
  rows that are not yet in an area (to none when every row already is), then \<open>dist\<close>,
  \<open>area\<close> and \<open>in_area\<close> are recomputed for all rows from \<open>distTuple\<close>.
\<close>

definition area_pass :: "area_cfg \<Rightarrow> arow frame \<Rightarrow> error + arow frame" where
  "area_pass a df =
     (let written = map (\<lambda>x. if in_area x = False
                              then x\<lparr>distTuple := Some (dist_tuple a x)\<rparr> else x) (rows df)
      in (case column unpack written of
            Inl e \<Rightarrow> Inl e
          | Inr rs \<Rightarrow>
              Inr \<lparr>rows = rs,
                   columns = add_col ''area'' (add_col ''dist''
                               (add_col ''distTuple'' (columns df)))\<rparr>))"

fun area_loop :: "area_cfg list \<Rightarrow> arow frame \<Rightarrow> error + arow frame" where
  "area_loop [] df = Inr df"
| "area_loop (a # rest) df =
     (case area_pass a df of Inl e \<Rightarrow> Inl e | Inr df' \<Rightarrow> area_loop rest df')"

definition assign_areas :: "point list \<Rightarrow> cfg \<Rightarrow> error + arow frame" where
  "assign_areas df c =
     (if df = [] then Inl ValueError
      else area_loop (areas c) \<lparr>rows = map init_row df, columns = base_columns\<rparr>)"

subsection \<open>\<open>visit_no\<close>\<close>

text \<open>
  \<open>Series.shift()\<close> moves every cell one row down and leaves the first cell empty.
  A comparison with an empty cell is false, except \<open>!=\<close>, which is true; the difference
  with an empty time is \<open>NaT\<close>, which is not greater than any \<open>Timedelta\<close>.
\<close>

definition shift :: "'a option list \<Rightarrow> 'a option list" where
  "shift xs = (if xs = [] then [] else None # butlast xs)"

definition ne :: "'a option \<Rightarrow> 'a option \<Rightarrow> bool" where
  "ne x y = (case (x, y) of (Some u, Some v) \<Rightarrow> u \<noteq> v | _ \<Rightarrow> True)"

definition eq :: "'a option \<Rightarrow> 'a option \<Rightarrow> bool" where
  "eq x y = (case (x, y) of (Some u, Some v) \<Rightarrow> u = v | _ \<Rightarrow> False)"

definition gap_gt :: "int option \<Rightarrow> int option \<Rightarrow> int \<Rightarrow> bool" where
  "gap_gt x y timedelta = (case (x, y) of (Some u, Some v) \<Rightarrow> u - v > timedelta | _ \<Rightarrow> False)"

fun cumsum_from :: "int \<Rightarrow> int list \<Rightarrow> int list" where
  "cumsum_from acc [] = []"
| "cumsum_from acc (x # xs) = (acc + x) # cumsum_from (acc + x) xs"

definition cumsum :: "int list \<Rightarrow> int list" where
  "cumsum xs = cumsum_from 0 xs"

definition area_change :: "arow list \<Rightarrow> int list" where
  "area_change df = map2 (\<lambda>a p. of_bool (ne a p)) (map area df) (shift (map area df))"

definition revisit_same_area :: "arow list \<Rightarrow> int \<Rightarrow> int list" where
  "revisit_same_area df timedelta =
     map2 (\<lambda>g s. of_bool (g \<and> s))
       (map2 (\<and>)
          (map2 (\<lambda>t p. gap_gt t p timedelta)
             (map (\<lambda>x. Some (time x)) df) (shift (map (\<lambda>x. Some (time x)) df)))
          (map2 eq (map area df) (shift (map area df))))
       (map2 eq (map (\<lambda>x. Some (date x)) df) (shift (map (\<lambda>x. Some (date x)) df)))"

definition date_change_in_same_area :: "arow list \<Rightarrow> bool list" where
  "date_change_in_same_area df =
     map2 (\<and>)
       (map2 ne (map (\<lambda>x. Some (date x)) df) (shift (map (\<lambda>x. Some (date x)) df)))
       (map2 eq (map area df) (map area df))"

record vrow = arow +
  visitNo :: int

definition with_visitNo :: "arow \<Rightarrow> int \<Rightarrow> vrow" where
  "with_visitNo x n =
     \<lparr>time = time x, date = date x, weekday = weekday x, daytime = daytime x,
      lat = lat x, lng = lng x,
      in_area = in_area x, distTuple = distTuple x, dist = dist x, area = area x,
      visitNo = n\<rparr>"

text \<open>
  The sum \<open>area_change + revisit_same_area + date_change_in_same_area\<close>, row by row; a
  boolean counts as 0 or 1.
\<close>

definition increments :: "arow list \<Rightarrow> int \<Rightarrow> int list" where
  "increments df timedelta =
     map2 (+)
       (map2 (+) (area_change df) (revisit_same_area df timedelta))
       (map of_bool (date_change_in_same_area df))"

text \<open>
  \<open>timedelta\<close> is the value of \<open>pd.Timedelta(timedelta)\<close> in milliseconds; the default
  \<open>"3h"\<close> is \<open>10800000\<close>.
\<close>

definition visit_no :: "arow frame \<Rightarrow> int \<Rightarrow> error + vrow frame" where
  "visit_no df0 timedelta =
     (if ''in_area'' \<notin> set (columns df0) then Inl AttributeError
      else
        (let df = filter in_area (rows df0)
         in if ''area'' \<notin> set (columns df0) then Inl AttributeError
            else
              Inr \<lparr>rows = map2 with_visitNo df (cumsum (increments df timedelta)),
                   columns = add_col ''visitNo'' (columns df0)\<rparr>))"

definition default_timedelta :: int where
  "default_timedelta = 3 * 60 * 60 * 1000"

subsection \<open>Area assignment as the specification words it\<close>

text \<open>
  The specification's first-match rule: the area of a point is the first area, in
  configuration order, whose distance to the point is strictly less than its radius.
  \<open>assigned\<close> is the row that rule gives: tag, distance and \<open>in_area\<close> of the first
  match; with no match, the distance to the last area tested.
\<close>

definition first_match :: "area_cfg list \<Rightarrow> point \<Rightarrow> area_cfg option" where
  "first_match cfg_areas x =
     find (\<lambda>a. distance (lat x) (lng x) (alat a) (alng a) < radius a) cfg_areas"

definition tested :: "point \<Rightarrow> area_cfg \<Rightarrow> bool \<Rightarrow> arow" where
  "tested x a hit =
     (let y = distance (lat x) (lng x) (alat a) (alng a);
          t = (if hit then Some (tag a) else None)
      in (init_row x)\<lparr>in_area := hit, distTuple := Some (y, t), dist := Some y, area := t\<rparr>)"

definition assigned :: "area_cfg list \<Rightarrow> point \<Rightarrow> arow" where
  "assigned cfg_areas x =
     (case first_match cfg_areas x of
        Some a \<Rightarrow> tested x a True
      | None \<Rightarrow> (if cfg_areas = [] then init_row x else tested x (last cfg_areas) False))"

text \<open>The columns after at least one pass of the loop.\<close>

definition area_columns :: "string list" where
  "area_columns = base_columns @ [''distTuple'', ''dist'', ''area'']"

subsection \<open>The local year as the specification words it\<close>

text \<open>
  The calendar year, in a zone whose UTC offset is \<open>off\<close> milliseconds, of the instant
  \<open>t\<close> milliseconds after the epoch, on the unbounded integers.
\<close>

definition local_year :: "int \<Rightarrow> int \<Rightarrow> int" where
  "local_year off t = fst (civil_from_days ((t + off) div 86400000))"

text \<open>
  The last two steps of \<open>process_lh\<close> in \<open>streamlit_app.py\<close>:
  \<open>df = lib.assign_areas(df, cfg)\<close>, then \<open>lib.visit_no(df)\<close> with the default \<open>timedelta\<close>.
\<close>

definition process_lh_visits :: "point list \<Rightarrow> cfg \<Rightarrow> error + vrow frame" where
  "process_lh_visits df c =
     (case assign_areas df c of
        Inl e \<Rightarrow> Inl e
      | Inr df' \<Rightarrow> visit_no df' default_timedelta)"

subsection \<open>Sample data\<close>

text \<open>
  A point of 2023-03-06 (a Monday) at the given instant and daytime, at the given
  coordinates; a row of an assigned frame in the given area; the configuration of the
  end-to-end scenario with the one area \<open>Office\<close>.
\<close>

definition sample_point :: "int \<Rightarrow> string \<Rightarrow> real \<Rightarrow> real \<Rightarrow> point" where
  "sample_point t hm la lo =
     \<lparr>time = t, date = ''2023-03-06'', weekday = ''1'', daytime = hm, lat = la, lng = lo\<rparr>"

definition sample_row :: "string \<Rightarrow> int \<Rightarrow> string \<Rightarrow> arow" where
  "sample_row a t d =
     \<lparr>time = t, date = d, weekday = ''1'', daytime = ''10:00'', lat = 0, lng = 0,
      in_area = True, distTuple = Some (0, Some a), dist = Some 0, area = Some a\<rparr>"

definition sample_frame :: "arow list \<Rightarrow> arow frame" where
  "sample_frame rs =
     \<lparr>rows = rs,
      columns = [''time'', ''date'', ''weekday'', ''daytime'', ''lat'', ''lng'', ''in_area'',
                 ''distTuple'', ''dist'', ''area'']\<rparr>"

definition office_cfg :: cfg where
  "office_cfg =
     \<lparr>vacation = [], worktimes = [''09:00'', ''18:00''], workdays = [1, 2, 3, 4, 5],
      bank_holidays_of = \<lparr>state = ''DE'', province = ''BY''\<rparr>,
      areas = [\<lparr>tag = ''Office'', radius = 200, alat = 52.52, alng = 13.40\<rparr>]\<rparr>"

text \<open>A raw point near the centre of \<open>Office\<close> with the numeric timestamp \<open>t\<close>.\<close>

definition sample_raw :: "int \<Rightarrow> raw_point" where
  "sample_raw t =
     \<lparr>timestampMs = Numeric t, latitudeE7 = 525200000, longitudeE7 = 134000000,
      accuracy = 10\<rparr>"

text \<open>The row of a point at the centre of \<open>Office\<close> once it is assigned to that area.\<close>

definition office_row :: "int \<Rightarrow> string \<Rightarrow> arow" where
  "office_row t hm =
     \<lparr>time = t, date = ''2023-03-06'', weekday = ''1'', daytime = hm,
      lat = 52.52, lng = 13.40,
      in_area = True, distTuple = Some (0, Some ''Office''), dist = Some 0,
      area = Some ''Office''\<rparr>"

text \<open>
  \<open>lng_at d\<close> is the longitude, in degrees, of the point of the equator \<open>d\<close> metres east
  of latitude 0, longitude 0 on the sphere of radius 6371 km; \<open>area_at name r d\<close> is an
  area of radius \<open>r\<close> whose centre is that point.
\<close>

definition lng_at :: "real \<Rightarrow> real" where
  "lng_at d = d * 180 / (6371000 * pi)"

definition area_at :: "string \<Rightarrow> real \<Rightarrow> real \<Rightarrow> area_cfg" where
  "area_at name r d = \<lparr>tag = name, radius = r, alat = 0, alng = lng_at d\<rparr>"

section \<open>Properties\<close>

subsection \<open>Vacation ranges\<close>







subsection \<open>The worktime mask\<close>

text \<open>
  C7: the worktime mask keeps a point exactly when its \<open>daytime\<close> lies between the two
  configured times, both ends included, in the lexicographic order of text; with the
  worktimes 09:00 and 18:00 the daytimes 09:00 and 18:00 pass, 08:59 and 18:01 do not.
\<close>

theorem worktime_mask_inclusive:
  "worktime_mask df (c\<lparr>worktimes := [w0, w1]\<rparr>)
     = Inr (map (\<lambda>x. w0 \<le> daytime x \<and> daytime x \<le> w1) df)
   \<and> worktime_mask
       [x\<lparr>daytime := ''09:00''\<rparr>, x\<lparr>daytime := ''18:00''\<rparr>,
        x\<lparr>daytime := ''08:59''\<rparr>, x\<lparr>daytime := ''18:01''\<rparr>]
       (c\<lparr>worktimes := [''09:00'', ''18:00'']\<rparr>)
     = Inr [True, True, False, False]"
  by (simp add: worktime_mask_def between_def)

subsection \<open>The haversine distance\<close>

lemma sin_half_sq: "(sin (x / 2))\<^sup>2 = (1 - cos x) / (2::real)"
  using cos_double_sin [of "x / 2"] by simp

lemma hav_arg_bounds:
  fixes p1 p2 l :: real
  defines "a \<equiv> (sin ((p2 - p1) / 2))\<^sup>2 + cos p1 * cos p2 * (sin (l / 2))\<^sup>2"
  shows "0 \<le> a" and "a \<le> 1"
proof -
  define s where "s = (sin ((p2 - p1) / 2))\<^sup>2"
  define u where "u = (sin (l / 2))\<^sup>2"
  define b where "b = s + cos p1 * cos p2"
  have s: "s = (1 - cos (p2 - p1)) / 2"
    unfolding s_def by (rule sin_half_sq)
  have b: "b = (1 + cos (p1 + p2)) / 2"
    unfolding b_def s by (simp add: cos_add cos_diff field_simps)
  have s01: "0 \<le> s" "s \<le> 1"
    unfolding s using cos_le_one [of "p2 - p1"] cos_ge_minus_one [of "p2 - p1"] by auto
  have b0: "0 \<le> b"
    unfolding b using cos_ge_minus_one [of "p1 + p2"] by argo
  have b1: "b \<le> 1"
    unfolding b using cos_le_one [of "p1 + p2"] by argo
  note b01 = b0 b1
  have u01: "0 \<le> u" "u \<le> 1"
    unfolding u_def using abs_sin_le_one [of "l / 2"] by (auto simp: abs_square_le_1)
  have a: "a = s * (1 - u) + b * u"
    unfolding a_def s_def u_def b_def by (simp add: algebra_simps)
  have "0 \<le> s * (1 - u)" "0 \<le> b * u"
    using s01 b01 u01 by simp_all
  then show "0 \<le> a" unfolding a by simp
  have "s * (1 - u) \<le> 1 * (1 - u)"
    using s01 u01 by (intro mult_right_mono) simp_all
  moreover have "b * u \<le> 1 * u"
    using b01 u01 by (intro mult_right_mono) simp_all
  ultimately show "a \<le> 1" unfolding a by simp
qed

lemma haversine_arcsin_nonneg:
  fixes p1 p2 l :: real
  shows "0 \<le> arcsin (sqrt ((sin ((p2 - p1) / 2))\<^sup>2 + cos p1 * cos p2 * (sin (l / 2))\<^sup>2))"
proof -
  let ?a = "(sin ((p2 - p1) / 2))\<^sup>2 + cos p1 * cos p2 * (sin (l / 2))\<^sup>2"
  have "0 \<le> ?a" "?a \<le> 1" by (rule hav_arg_bounds)+
  then have "0 \<le> sqrt ?a" "sqrt ?a \<le> 1" by simp_all
  then have "arcsin 0 \<le> arcsin (sqrt ?a)"
    by (intro arcsin_le_arcsin) simp_all
  then show ?thesis by simp
qed

lemma sin_half_swap: "(sin ((x - y) / 2))\<^sup>2 = (sin ((y - x) / 2))\<^sup>2" for x y :: real
proof -
  have "(x - y) / 2 = - ((y - x) / 2)" by argo
  then have "sin ((x - y) / 2) = - sin ((y - x) / 2)" by (simp only: sin_minus)
  then show ?thesis by simp
qed

text \<open>
  C9: for all coordinates in decimal degrees the distance is symmetric in its two points,
  is zero from a point to itself, and is never negative.
\<close>

theorem haversine_symmetric_zero_nonneg:
  "distance lat1 lon1 lat2 lon2 = distance lat2 lon2 lat1 lon1
   \<and> distance lat1 lon1 lat1 lon1 = 0
   \<and> 0 \<le> distance lat1 lon1 lat2 lon2"
proof (intro conjI)
  show "distance lat1 lon1 lat2 lon2 = distance lat2 lon2 lat1 lon1"
    unfolding distance_def haversine_def Let_def
    by (simp add: sin_half_swap [of "radians lat2"] sin_half_swap [of "radians lon2"] mult.commute)
  show "distance lat1 lon1 lat1 lon1 = 0"
    by (simp add: distance_def haversine_def)
  show "0 \<le> distance lat1 lon1 lat2 lon2"
    unfolding distance_def haversine_def Let_def
    using haversine_arcsin_nonneg [of "radians lat2" "radians lat1" "radians lon2 - radians lon1"]
    by simp
qed

subsection \<open>Visit numbers\<close>

lemma distance_self: "distance la lo la lo = 0"
  by (simp add: distance_def haversine_def)

lemma cumsum_from_length [simp]: "length (cumsum_from acc xs) = length xs"
  by (induction xs arbitrary: acc) auto


lemma shift_length [simp]: "length (shift xs) = length xs"
  by (simp add: shift_def)


lemma shift_0: "xs \<noteq> [] \<Longrightarrow> shift xs ! 0 = None"
  by (simp add: shift_def)

lemma area_change_length [simp]: "length (area_change df) = length df"
  by (simp add: area_change_def)

lemma revisit_length [simp]: "length (revisit_same_area df td) = length df"
  by (simp add: revisit_same_area_def)

lemma date_change_length [simp]: "length (date_change_in_same_area df) = length df"
  by (simp add: date_change_in_same_area_def)




lemma area_change_0: "df \<noteq> [] \<Longrightarrow> area_change df ! 0 = 1"
  by (cases df) (simp_all add: area_change_def shift_def ne_def split: option.splits)

lemma revisit_0: "df \<noteq> [] \<Longrightarrow> revisit_same_area df td ! 0 = 0"
  by (cases df) (simp_all add: revisit_same_area_def shift_def gap_gt_def eq_def)

lemma date_change_0:
  "df \<noteq> [] \<Longrightarrow> date_change_in_same_area df ! 0 = (area (df ! 0) \<noteq> None)"
  by (cases df) (auto simp add: date_change_in_same_area_def shift_def ne_def eq_def split: option.splits)


lemma increments_length [simp]: "length (increments df td) = length df"
  by (simp add: increments_def)


lemma increments_0:
  assumes "df \<noteq> []"
  shows "increments df td ! 0 = 1 + of_bool (area (df ! 0) \<noteq> None)"
  using assms
  by (simp add: increments_def area_change_0 revisit_0 date_change_0)

lemma visit_no_rows:
  assumes "visit_no df0 td = Inr out"
  shows "rows out = map2 with_visitNo (filter in_area (rows df0))
                      (cumsum (increments (filter in_area (rows df0)) td))"
  using assms by (auto simp: visit_no_def Let_def split: if_splits)

lemma visit_no_nth:
  assumes "visit_no df0 td = Inr out" and "i < length (rows out)"
  shows "visitNo (rows out ! i) = cumsum (increments (filter in_area (rows df0)) td) ! i"
    and "time (rows out ! i) = time (filter in_area (rows df0) ! i)"
    and "date (rows out ! i) = date (filter in_area (rows df0) ! i)"
    and "area (rows out ! i) = area (filter in_area (rows df0) ! i)"
    and "i < length (filter in_area (rows df0))"
  using assms(2) unfolding visit_no_rows [OF assms(1)]
  by (simp_all add: with_visitNo_def cumsum_def)

lemmas visit_eval =
  visit_no_def Let_def sample_frame_def sample_row_def add_col_def increments_def
  area_change_def revisit_same_area_def date_change_in_same_area_def shift_def
  ne_def eq_def gap_gt_def cumsum_def with_visitNo_def default_timedelta_def



text \<open>Three points of \<open>Home\<close> on one date with gaps of one hour share one visit number.\<close>

lemma visit_no_three_points_one_visit:
  "visit_no (sample_frame [sample_row ''Home'' 0 ''2023-03-06'',
                           sample_row ''Home'' 3600000 ''2023-03-06'',
                           sample_row ''Home'' 7200000 ''2023-03-06'']) default_timedelta
     = Inr \<lparr>rows = [with_visitNo (sample_row ''Home'' 0 ''2023-03-06'') 2,
                   with_visitNo (sample_row ''Home'' 3600000 ''2023-03-06'') 2,
                   with_visitNo (sample_row ''Home'' 7200000 ''2023-03-06'') 2],
            columns = columns (sample_frame []) @ [''visitNo'']\<rparr>"
  by (simp add: visit_eval)

text \<open>
  The first in-area row gets the visit number 2, not 1: it has no predecessor, so
  \<open>area_change\<close> is 1, and \<open>date_change_in_same_area\<close> is 1 too, because its second
  operand compares \<open>df.area\<close> with itself and not with the shifted column.
\<close>

lemma visit_no_first:
  assumes "visit_no df0 td = Inr out" and "rows out \<noteq> []"
    and "area (rows out ! 0) \<noteq> None"
  shows "visitNo (rows out ! 0) = 2"
proof -
  let ?df = "filter in_area (rows df0)"
  have l: "0 < length (rows out)" using assms(2) by simp
  have ne: "?df \<noteq> []" using visit_no_nth(5) [OF assms(1) l] by auto
  have "cumsum (increments ?df td) ! 0 = increments ?df td ! 0"
    using ne by (cases "increments ?df td") (auto simp: cumsum_def)
  then show ?thesis
    using assms(3)
    unfolding visit_no_nth(1) [OF assms(1) l] visit_no_nth(4) [OF assms(1) l]
    by (simp add: increments_0 [OF ne])
qed

subsection \<open>The loop of \<open>assign_areas\<close> computes the first match\<close>

lemma find_snoc:
  "find P (xs @ [a]) = (case find P xs of Some b \<Rightarrow> Some b | None \<Rightarrow> if P a then Some a else None)"
  by (induction xs) auto

text \<open>One pass over a row that the earlier areas left as \<open>assigned pre x\<close>.\<close>

lemma pass_assigned:
  "unpack (if in_area (assigned pre x) = False
           then (assigned pre x)\<lparr>distTuple := Some (dist_tuple a (assigned pre x))\<rparr>
           else assigned pre x)
     = Inr (assigned (pre @ [a]) x)"
proof (cases "first_match pre x")
  case None
  then show ?thesis
    by (simp add: assigned_def first_match_def find_snoc tested_def init_row_def
        unpack_def dist_tuple_def Let_def)
next
  case (Some b)
  then show ?thesis
    by (simp add: assigned_def first_match_def find_snoc tested_def init_row_def
        unpack_def Let_def)
qed

lemma column_map:
  assumes "\<And>x. f (h x) = Inr (g x)"
  shows "column f (map h xs) = Inr (map g xs)"
  by (induction xs) (simp_all add: assms)

lemma area_pass_assigned:
  "area_pass a \<lparr>rows = map (assigned pre) df, columns = cols\<rparr>
     = Inr \<lparr>rows = map (assigned (pre @ [a])) df,
            columns = add_col ''area'' (add_col ''dist'' (add_col ''distTuple'' cols))\<rparr>"
proof -
  have "column unpack
          (map (\<lambda>x. if in_area (assigned pre x) = False
                     then (assigned pre x)\<lparr>distTuple := Some (dist_tuple a (assigned pre x))\<rparr>
                     else assigned pre x) df)
        = Inr (map (assigned (pre @ [a])) df)"
    by (rule column_map) (rule pass_assigned)
  then show ?thesis
    by (simp add: area_pass_def Let_def comp_def)
qed

lemma add_area_columns:
  "add_col ''area'' (add_col ''dist'' (add_col ''distTuple'' base_columns)) = area_columns"
  "add_col ''area'' (add_col ''dist'' (add_col ''distTuple'' area_columns)) = area_columns"
  by (simp_all add: add_col_def base_columns_def area_columns_def)

lemma area_loop_assigned:
  assumes "cols = base_columns \<or> cols = area_columns"
  shows "area_loop rest \<lparr>rows = map (assigned pre) df, columns = cols\<rparr>
     = Inr \<lparr>rows = map (assigned (pre @ rest)) df,
            columns = (if rest = [] then cols else area_columns)\<rparr>"
  using assms
proof (induction rest arbitrary: pre cols)
  case Nil
  then show ?case by simp
next
  case (Cons a rest)
  have c: "add_col ''area'' (add_col ''dist'' (add_col ''distTuple'' cols)) = area_columns"
    using Cons.prems add_area_columns by auto
  show ?case
    using Cons.IH [of area_columns "pre @ [a]"]
    by (simp add: area_pass_assigned c)
qed

lemma assigned_Nil: "assigned [] x = init_row x"
  by (simp add: assigned_def first_match_def)

lemma assign_areas_Nil: "assign_areas [] c = Inl ValueError"
  by (simp add: assign_areas_def)

lemma assign_areas_rows:
  assumes "df \<noteq> []"
  shows "assign_areas df c
     = Inr \<lparr>rows = map (assigned (areas c)) df,
            columns = (if areas c = [] then base_columns else area_columns)\<rparr>"
proof -
  have m: "map init_row df = map (assigned []) df"
    by (simp add: assigned_Nil)
  have "assign_areas df c
          = area_loop (areas c) \<lparr>rows = map (assigned []) df, columns = base_columns\<rparr>"
    using assms by (simp add: assign_areas_def m)
  then show ?thesis
    using area_loop_assigned [of base_columns "areas c" "[]" df]
    by simp
qed

text \<open>Distances along the equator, for the sample areas.\<close>

lemma distance_equator:
  assumes "0 \<le> d" and "d \<le> 6371000 * pi"
  shows "distance 0 0 0 (lng_at d) = d"
proof -
  define th where "th = d / 12742000"
  have r: "(radians (lng_at d) - radians 0) / 2.0 = th"
    by (simp add: radians_def lng_at_def th_def)
  have th0: "0 \<le> th" using assms(1) by (simp add: th_def)
  have th1: "th \<le> pi / 2" using assms(2) by (simp add: th_def)
  have th2: "th \<le> pi" "- (pi / 2) \<le> th" using th0 th1 pi_ge_zero by linarith+
  have "0 \<le> sin th" using th0 th2(1) by (rule sin_ge_zero)
  then have "sqrt ((sin th)\<^sup>2) = sin th" by simp
  moreover have "arcsin (sin th) = th"
    using th2(2) th1 by (rule arcsin_sin)
  ultimately have a: "arcsin (sqrt ((sin th)\<^sup>2)) = th" by simp
  have "distance 0 0 0 (lng_at d) = 6371 * 2 * arcsin (sqrt ((sin th)\<^sup>2)) * 1000"
    unfolding distance_def haversine_def Let_def if_True r
    by (simp add: radians_def)
  then show ?thesis
    unfolding a by (simp add: th_def)
qed

lemma distance_equator_small:
  assumes "0 \<le> d" and "d \<le> 1000000"
  shows "distance 0 0 0 (lng_at d) = d"
proof -
  have "(1000000 :: real) \<le> 6371000 * pi" using pi_ge_two by linarith
  with assms show ?thesis by (intro distance_equator) linarith+
qed

lemma first_match_area_at_hit:
  assumes "0 \<le> d" and "d \<le> 1000000" and "d < r"
  shows "first_match (area_at name r d # rest) (sample_point t hm 0 0) = Some (area_at name r d)"
  using assms by (simp add: first_match_def area_at_def sample_point_def distance_equator_small)

lemma first_match_area_at_miss:
  assumes "0 \<le> d" and "d \<le> 1000000" and "r \<le> d"
  shows "first_match (area_at name r d # rest) (sample_point t hm 0 0)
           = first_match rest (sample_point t hm 0 0)"
  using assms by (simp add: first_match_def area_at_def sample_point_def distance_equator_small)

lemma assigned_area:
  "area (assigned cfg_areas x) = map_option tag (first_match cfg_areas x)"
  "in_area (assigned cfg_areas x) = (first_match cfg_areas x \<noteq> None)"
  by (auto simp: assigned_def tested_def Let_def init_row_def split: option.splits)

lemma assigned_dist_hit:
  "first_match cfg_areas x = Some a \<Longrightarrow>
     dist (assigned cfg_areas x) = Some (distance (lat x) (lng x) (alat a) (alng a))"
  by (simp add: assigned_def tested_def Let_def)

text \<open>
  C4: on a frame with at least one row, \<open>assign_areas\<close> gives every point the first
  area, in configuration order, whose distance to the point is strictly less than its
  radius; a later area never replaces it.  With \<open>A\<close> (radius 500) at distance 100 and
  \<open>B\<close> (radius 1000) at distance 50, in the order \<open>[A, B]\<close>, the point is assigned to
  \<open>A\<close>.  The test is strict: with the radius of \<open>A\<close> equal to the distance 100, the
  point is not in \<open>A\<close> and goes to \<open>B\<close>.
\<close>

theorem assign_areas_first_match:
  assumes "df \<noteq> []"
  shows "(\<exists>out. assign_areas df c = Inr out
      \<and> map area (rows out) = map (\<lambda>x. map_option tag (first_match (areas c) x)) df
      \<and> map in_area (rows out) = map (\<lambda>x. first_match (areas c) x \<noteq> None) df)
   \<and> distance 0 0 (alat (area_at ''A'' 500 100)) (alng (area_at ''A'' 500 100)) = 100
   \<and> distance 0 0 (alat (area_at ''B'' 1000 50)) (alng (area_at ''B'' 1000 50)) = 50
   \<and> assign_areas [sample_point 0 ''10:00'' 0 0]
        (office_cfg\<lparr>areas := [area_at ''A'' 500 100, area_at ''B'' 1000 50]\<rparr>)
      = Inr \<lparr>rows = [tested (sample_point 0 ''10:00'' 0 0) (area_at ''A'' 500 100) True],
             columns = area_columns\<rparr>
   \<and> area (tested (sample_point 0 ''10:00'' 0 0) (area_at ''A'' 500 100) True) = Some ''A''
   \<and> assign_areas [sample_point 0 ''10:00'' 0 0]
        (office_cfg\<lparr>areas := [area_at ''A'' 100 100, area_at ''B'' 1000 50]\<rparr>)
      = Inr \<lparr>rows = [tested (sample_point 0 ''10:00'' 0 0) (area_at ''B'' 1000 50) True],
             columns = area_columns\<rparr>"
proof (intro conjI)
  show "\<exists>out. assign_areas df c = Inr out
      \<and> map area (rows out) = map (\<lambda>x. map_option tag (first_match (areas c) x)) df
      \<and> map in_area (rows out) = map (\<lambda>x. first_match (areas c) x \<noteq> None) df"
    by (simp add: assign_areas_rows [OF assms] assigned_area comp_def)
  show "distance 0 0 (alat (area_at ''A'' 500 100)) (alng (area_at ''A'' 500 100)) = 100"
    by (simp add: area_at_def distance_equator_small)
  show "distance 0 0 (alat (area_at ''B'' 1000 50)) (alng (area_at ''B'' 1000 50)) = 50"
    by (simp add: area_at_def distance_equator_small)
  show "assign_areas [sample_point 0 ''10:00'' 0 0]
        (office_cfg\<lparr>areas := [area_at ''A'' 500 100, area_at ''B'' 1000 50]\<rparr>)
      = Inr \<lparr>rows = [tested (sample_point 0 ''10:00'' 0 0) (area_at ''A'' 500 100) True],
             columns = area_columns\<rparr>"
    by (simp add: assign_areas_rows assigned_def first_match_area_at_hit)
  show "area (tested (sample_point 0 ''10:00'' 0 0) (area_at ''A'' 500 100) True) = Some ''A''"
    by (simp add: tested_def Let_def area_at_def)
  show "assign_areas [sample_point 0 ''10:00'' 0 0]
        (office_cfg\<lparr>areas := [area_at ''A'' 100 100, area_at ''B'' 1000 50]\<rparr>)
      = Inr \<lparr>rows = [tested (sample_point 0 ''10:00'' 0 0) (area_at ''B'' 1000 50) True],
             columns = area_columns\<rparr>"
    by (simp add: assign_areas_rows assigned_def first_match_area_at_hit first_match_area_at_miss)
qed

text \<open>The frame of one point with the areas \<open>[A, B]\<close>: the point is in \<open>A\<close>.\<close>

theorem assign_areas_first_match_witness:
  "[sample_point 0 ''10:00'' 0 0] \<noteq> []
   \<and> (\<exists>out. assign_areas [sample_point 0 ''10:00'' 0 0]
               (office_cfg\<lparr>areas := [area_at ''A'' 500 100, area_at ''B'' 1000 50]\<rparr>)
             = Inr out
          \<and> map area (rows out) = [Some ''A''] \<and> map in_area (rows out) = [True])"
proof -
  let ?p = "sample_point 0 ''10:00'' 0 0"
  let ?c = "office_cfg\<lparr>areas := [area_at ''A'' 500 100, area_at ''B'' 1000 50]\<rparr>"
  have n: "[?p] \<noteq> []" by simp
  have f: "first_match (areas ?c) ?p = Some (area_at ''A'' 500 100)"
    by (simp add: first_match_area_at_hit)
  have t: "tag (area_at ''A'' 500 100) = ''A''"
    by (simp add: area_at_def)
  from assign_areas_first_match [OF n, of ?c]
  obtain out where o: "assign_areas [?p] ?c = Inr out"
    and a: "map area (rows out) = map (\<lambda>x. map_option tag (first_match (areas ?c) x)) [?p]"
    and i: "map in_area (rows out) = map (\<lambda>x. first_match (areas ?c) x \<noteq> None) [?p]"
    by blast
  have ar: "map area (rows out) = [Some ''A'']"
    unfolding a list.map f by (simp add: t)
  have ia: "map in_area (rows out) = [True]"
    unfolding i list.map f by simp
  from o ar ia
  have "assign_areas [?p] ?c = Inr out
          \<and> map area (rows out) = [Some ''A''] \<and> map in_area (rows out) = [True]"
    by (intro conjI)
  then have "\<exists>out. assign_areas [?p] ?c = Inr out
          \<and> map area (rows out) = [Some ''A''] \<and> map in_area (rows out) = [True]"
    by (rule exI)
  with n show ?thesis by (intro conjI)
qed

text \<open>
  C10: with at least one configured area, every point has a distance after
  \<open>assign_areas\<close>; a point that no area matches carries the distance to the last area
  of the list, no area, and \<open>in_area = False\<close>.
\<close>

theorem assign_areas_unmatched:
  assumes "assign_areas df c = Inr out" and "areas c \<noteq> []" and "i < length df"
  shows "dist (rows out ! i) \<noteq> None
       \<and> ((\<forall>a \<in> set (areas c).
              \<not> distance (lat (df ! i)) (lng (df ! i)) (alat a) (alng a) < radius a) \<longrightarrow>
            dist (rows out ! i)
              = Some (distance (lat (df ! i)) (lng (df ! i))
                        (alat (last (areas c))) (alng (last (areas c))))
          \<and> area (rows out ! i) = None \<and> in_area (rows out ! i) = False)"
proof -
  have r: "rows out ! i = assigned (areas c) (df ! i)"
  proof -
    have "df \<noteq> []" using assms(3) by auto
    from assign_areas_rows [OF this, of c] assms(1,3) show ?thesis by auto
  qed
  have "dist (assigned (areas c) (df ! i)) \<noteq> None"
    using assms(2) by (simp add: assigned_def tested_def Let_def split: option.splits)
  moreover have "dist (assigned (areas c) (df ! i))
              = Some (distance (lat (df ! i)) (lng (df ! i))
                        (alat (last (areas c))) (alng (last (areas c))))
          \<and> area (assigned (areas c) (df ! i)) = None
          \<and> in_area (assigned (areas c) (df ! i)) = False"
    if "\<forall>a \<in> set (areas c).
              \<not> distance (lat (df ! i)) (lng (df ! i)) (alat a) (alng a) < radius a"
  proof -
    have "first_match (areas c) (df ! i) = None"
      using that by (simp add: first_match_def find_None_iff)
    then show ?thesis
      using assms(2) by (simp add: assigned_def tested_def Let_def)
  qed
  ultimately show ?thesis unfolding r by blast
qed

text \<open>
  A point 100 metres from the centre of \<open>C\<close> (radius 50) and 50 metres from the centre of
  \<open>D\<close> (radius 10), configured in the order \<open>[C, D]\<close>: no area, distance 50.
\<close>

lemma first_match_Nil: "first_match [] x = None"
  by (simp add: first_match_def)

theorem assign_areas_unmatched_witness:
  "assign_areas [sample_point 0 ''10:00'' 0 0]
       (office_cfg\<lparr>areas := [area_at ''C'' 50 100, area_at ''D'' 10 50]\<rparr>)
     = Inr \<lparr>rows = [tested (sample_point 0 ''10:00'' 0 0) (area_at ''D'' 10 50) False],
            columns = area_columns\<rparr>
   \<and> dist (tested (sample_point 0 ''10:00'' 0 0) (area_at ''D'' 10 50) False) = Some 50
   \<and> area (tested (sample_point 0 ''10:00'' 0 0) (area_at ''D'' 10 50) False) = None
   \<and> in_area (tested (sample_point 0 ''10:00'' 0 0) (area_at ''D'' 10 50) False) = False"
proof -
  let ?p = "sample_point 0 ''10:00'' 0 0"
  let ?c = "office_cfg\<lparr>areas := [area_at ''C'' 50 100, area_at ''D'' 10 50]\<rparr>"
  let ?out = "\<lparr>rows = [tested ?p (area_at ''D'' 10 50) False], columns = area_columns\<rparr>"
  have e: "assign_areas [?p] ?c = Inr ?out"
    by (simp add: assign_areas_rows assigned_def first_match_area_at_miss first_match_Nil)
  have n: "areas ?c \<noteq> []" by simp
  have l: "0 < length [?p]" by simp
  have m: "\<forall>a \<in> set (areas ?c).
             \<not> distance (lat ([?p] ! 0)) (lng ([?p] ! 0)) (alat a) (alng a) < radius a"
    by (simp add: area_at_def sample_point_def distance_equator_small)
  have d: "distance (lat ([?p] ! 0)) (lng ([?p] ! 0))
             (alat (last (areas ?c))) (alng (last (areas ?c))) = 50"
    by (simp add: area_at_def sample_point_def distance_equator_small)
  from assign_areas_unmatched [OF e n l] m
  have "dist (rows ?out ! 0)
              = Some (distance (lat ([?p] ! 0)) (lng ([?p] ! 0))
                        (alat (last (areas ?c))) (alng (last (areas ?c))))
          \<and> area (rows ?out ! 0) = None \<and> in_area (rows ?out ! 0) = False"
    by blast
  then have "dist (tested ?p (area_at ''D'' 10 50) False) = Some 50
     \<and> area (tested ?p (area_at ''D'' 10 50) False) = None
     \<and> in_area (tested ?p (area_at ''D'' 10 50) False) = False"
    unfolding d by simp
  with e show ?thesis by blast
qed

subsection \<open>The pipeline with no configured area\<close>

text \<open>
  C3 says that \<open>assign_areas\<close> followed by \<open>visit_no\<close> with an empty list of areas is no
  error and gives an empty result.  It is an error for every frame.  On a frame with at
  least one row the loop of \<open>assign_areas\<close> never runs, the columns \<open>dist\<close> and \<open>area\<close>
  that its docstring promises are never created, and \<open>visit_no\<close> raises
  \<open>AttributeError\<close> on \<open>df.area\<close>.  On a frame without rows \<open>assign_areas\<close> itself
  raises \<open>ValueError\<close>.
\<close>

theorem process_lh_visits_no_areas:
  "process_lh_visits df (c\<lparr>areas := []\<rparr>)
     = Inl (if df = [] then ValueError else AttributeError)"
proof (cases "df = []")
  case True
  then show ?thesis
    by (simp add: process_lh_visits_def assign_areas_Nil)
next
  case False
  then show ?thesis
    by (simp add: process_lh_visits_def assign_areas_rows visit_no_def base_columns_def)
qed

subsection \<open>The end-to-end scenario\<close>

lemma assigned_office:
  "assigned (areas office_cfg) (sample_point t hm 52.52 13.40) = office_row t hm"
proof -
  have "first_match (areas office_cfg) (sample_point t hm 52.52 13.40)
             = Some \<lparr>tag = ''Office'', radius = 200, alat = 52.52, alng = 13.40\<rparr>"
    by (simp add: first_match_def office_cfg_def sample_point_def distance_self)
  then show ?thesis
    by (simp add: assigned_def tested_def Let_def init_row_def sample_point_def
        office_row_def distance_self)
qed

lemma visit_no_office_rows:
  "visit_no \<lparr>rows = [office_row 1678089600000 ''09:00'', office_row 1678093200000 ''10:00'',
                      office_row 1678096800000 ''11:00'', office_row 1678100400000 ''12:00''],
             columns = area_columns\<rparr> default_timedelta
     = Inr \<lparr>rows = [with_visitNo (office_row 1678089600000 ''09:00'') 2,
                   with_visitNo (office_row 1678093200000 ''10:00'') 2,
                   with_visitNo (office_row 1678096800000 ''11:00'') 2,
                   with_visitNo (office_row 1678100400000 ''12:00'') 2],
            columns = area_columns @ [''visitNo'']\<rparr>"
  by (simp add: visit_no_def Let_def office_row_def add_col_def increments_def
      area_change_def revisit_same_area_def date_change_in_same_area_def shift_def
      ne_def eq_def gap_gt_def cumsum_def with_visitNo_def default_timedelta_def
      area_columns_def base_columns_def)

text \<open>
  C1 says that the first in-area point gets the visit number 1, and that the four points
  of the end-to-end scenario all get 1.  Four points at the centre of \<open>Office\<close> on
  2023-03-06, one hour apart, are all assigned to \<open>Office\<close> and all get the visit number 2
  (see \<open>visit_no_first\<close> for the first row of any frame).
\<close>

theorem office_scenario_visit_numbers:
  "\<exists>out. process_lh_visits
            [sample_point 1678089600000 ''09:00'' 52.52 13.40,
             sample_point 1678093200000 ''10:00'' 52.52 13.40,
             sample_point 1678096800000 ''11:00'' 52.52 13.40,
             sample_point 1678100400000 ''12:00'' 52.52 13.40] office_cfg = Inr out
      \<and> map area (rows out) = [Some ''Office'', Some ''Office'', Some ''Office'', Some ''Office'']
      \<and> map visitNo (rows out) = [2, 2, 2, 2]"
proof -
  have n: "areas office_cfg \<noteq> []" by (simp add: office_cfg_def)
  have "process_lh_visits
            [sample_point 1678089600000 ''09:00'' 52.52 13.40,
             sample_point 1678093200000 ''10:00'' 52.52 13.40,
             sample_point 1678096800000 ''11:00'' 52.52 13.40,
             sample_point 1678100400000 ''12:00'' 52.52 13.40] office_cfg
     = Inr \<lparr>rows = [with_visitNo (office_row 1678089600000 ''09:00'') 2,
                   with_visitNo (office_row 1678093200000 ''10:00'') 2,
                   with_visitNo (office_row 1678096800000 ''11:00'') 2,
                   with_visitNo (office_row 1678100400000 ''12:00'') 2],
            columns = area_columns @ [''visitNo'']\<rparr>"
    unfolding process_lh_visits_def
      assign_areas_rows [of "[sample_point 1678089600000 ''09:00'' 52.52 13.40,
             sample_point 1678093200000 ''10:00'' 52.52 13.40,
             sample_point 1678096800000 ''11:00'' 52.52 13.40,
             sample_point 1678100400000 ''12:00'' 52.52 13.40]", OF list.distinct(2)]
      list.map assigned_office
    by (simp add: n visit_no_office_rows)
  then show ?thesis
    by (simp add: with_visitNo_def office_row_def)
qed

subsection \<open>Combining the masks\<close>

lemma mask_and_commute: "mask_and i j = mask_and j i"
proof (induction i arbitrary: j)
  case Nil
  then show ?case by (simp add: mask_and_def)
next
  case (Cons a i)
  then show ?case by (cases j) (auto simp: mask_and_def)
qed

lemma mask_and_assoc: "mask_and (mask_and i j) k = mask_and i (mask_and j k)"
proof (induction i arbitrary: j k)
  case Nil
  then show ?case by (simp add: mask_and_def)
next
  case (Cons a i)
  show ?case
  proof (cases j)
    case Nil
    then show ?thesis by (simp add: mask_and_def)
  next
    case j: (Cons b j')
    show ?thesis
    proof (cases k)
      case Nil
      then show ?thesis by (simp add: mask_and_def)
    next
      case (Cons c k')
      with j Cons.IH [of j' k'] show ?thesis by (simp add: mask_and_def)
    qed
  qed
qed

lemma mask_and_idem: "mask_and i i = i"
  by (induction i) (simp_all add: mask_and_def)

lemma foldl_mask_and_out: "foldl mask_and (mask_and a b) ms = mask_and a (foldl mask_and b ms)"
  by (induction ms arbitrary: b) (simp_all add: mask_and_assoc)

lemma foldl_mask_and_absorb:
  "x \<in> set ms \<Longrightarrow> mask_and x (foldl mask_and a ms) = foldl mask_and a ms"
proof (induction ms arbitrary: a)
  case Nil
  then show ?case by simp
next
  case (Cons m ms)
  show ?case
  proof (cases "x = m")
    case True
    have "mask_and m (foldl mask_and (mask_and a m) ms)
            = foldl mask_and (mask_and m (mask_and a m)) ms"
      by (simp add: foldl_mask_and_out)
    also have "mask_and m (mask_and a m) = mask_and (mask_and a m) m"
      by (rule mask_and_commute)
    also have "\<dots> = mask_and a (mask_and m m)"
      by (rule mask_and_assoc)
    also have "\<dots> = mask_and a m"
      by (simp only: mask_and_idem)
    finally show ?thesis using True by simp
  next
    case False
    with Cons.prems have "x \<in> set ms" by simp
    from Cons.IH [OF this] show ?thesis by simp
  qed
qed

lemma foldl_mask_and_start:
  assumes "x \<in> set ms" and "y \<in> set ms"
  shows "foldl mask_and x ms = foldl mask_and y ms"
proof -
  have "foldl mask_and x ms = mask_and y (foldl mask_and x ms)"
    using foldl_mask_and_absorb [OF assms(2)] by simp
  also have "\<dots> = foldl mask_and (mask_and y x) ms"
    by (simp add: foldl_mask_and_out)
  also have "\<dots> = foldl mask_and (mask_and x y) ms"
    by (simp add: mask_and_commute)
  also have "\<dots> = mask_and x (foldl mask_and y ms)"
    by (simp add: foldl_mask_and_out)
  also have "\<dots> = foldl mask_and y ms"
    by (rule foldl_mask_and_absorb [OF assms(1)])
  finally show ?thesis .
qed

lemma foldl_mask_and_mset:
  assumes "mset ms' = mset ms"
  shows "foldl mask_and a ms' = foldl mask_and a ms"
proof -
  have "fold (\<lambda>m acc. mask_and acc m) ms' = fold (\<lambda>m acc. mask_and acc m) ms"
  proof (rule fold_multiset_equiv)
    show "(\<lambda>acc. mask_and acc x) \<circ> (\<lambda>acc. mask_and acc y)
            = (\<lambda>acc. mask_and acc y) \<circ> (\<lambda>acc. mask_and acc x)" for x y
      by (rule ext) (simp add: mask_and_assoc mask_and_commute [of x y])
    show "mset ms' = mset ms" by (rule assms)
  qed
  then show ?thesis by (simp add: foldl_conv_fold)
qed

lemma reduce_mask_and_Cons: "reduce mask_and (m # ms) = Inr (foldl mask_and m (m # ms))"
  by (simp add: reduce_def mask_and_idem)

lemma reduce_mask_and_mset:
  assumes "mset ms' = mset ms"
  shows "reduce mask_and ms' = reduce mask_and ms"
proof (cases ms)
  case Nil
  with assms show ?thesis by simp
next
  case (Cons x xs)
  with assms obtain y ys where ms': "ms' = y # ys" by (cases ms') auto
  have "set ms' = set ms" using assms by (rule mset_eq_setD)
  then have y: "y \<in> set ms" and x: "x \<in> set ms" unfolding ms' Cons by auto
  have "foldl mask_and y ms' = foldl mask_and y ms"
    using assms by (rule foldl_mask_and_mset)
  also have "\<dots> = foldl mask_and x ms"
    using y x by (rule foldl_mask_and_start)
  finally show ?thesis
    unfolding ms' Cons reduce_mask_and_Cons by simp
qed

lemma mask_and_map: "mask_and (map f xs) (map g xs) = map (\<lambda>x. f x \<and> g x) xs"
  by (induction xs) (simp_all add: mask_and_def)

lemma select_map: "select xs (map P xs) = filter P xs"
  by (induction xs) (simp_all add: select_def)

text \<open>
  C6: \<open>apply_masks\<close> gives the same filtered frame for every permutation of the list of
  masks; and with the four masks computed row by row (vacation \<open>v\<close>, bank holiday \<open>b\<close>,
  workday \<open>d\<close>, worktime \<open>w\<close>) a point is kept exactly when it passes all four, whatever
  the other points are.
\<close>

theorem apply_masks_order_independent:
  "(mset ms' = mset ms \<longrightarrow> apply_masks df ms' = apply_masks df ms)
   \<and> apply_masks df [map v df, map b df, map d df, map w df]
       = Inr (filter (\<lambda>x. v x \<and> b x \<and> d x \<and> w x) df)"
proof
  show "mset ms' = mset ms \<longrightarrow> apply_masks df ms' = apply_masks df ms"
  proof
    assume "mset ms' = mset ms"
    then have "reduce mask_and ms' = reduce mask_and ms"
      by (rule reduce_mask_and_mset)
    then show "apply_masks df ms' = apply_masks df ms"
      by (simp only: apply_masks_def)
  qed
  have "reduce mask_and [map v df, map b df, map d df, map w df]
          = Inr (map (\<lambda>x. v x \<and> b x \<and> d x \<and> w x) df)"
    by (simp add: reduce_def mask_and_map conj_assoc)
  then show "apply_masks df [map v df, map b df, map d df, map w df]
       = Inr (filter (\<lambda>x. v x \<and> b x \<and> d x \<and> w x) df)"
    by (simp add: apply_masks_def select_map)
qed

theorem apply_masks_order_independent_witness:
  "mset [[True, True, False], [True, False, True], [True, True, True], [True, True, True]]
     = mset [[True, True, True], [True, True, False], [True, True, True], [True, False, True]]
   \<and> apply_masks [sample_raw 1, sample_raw 2, sample_raw 3]
       [[True, True, False], [True, False, True], [True, True, True], [True, True, True]]
     = Inr [sample_raw 1]
   \<and> apply_masks [sample_raw 1, sample_raw 2, sample_raw 3]
       [[True, True, True], [True, True, False], [True, True, True], [True, False, True]]
     = Inr [sample_raw 1]"
proof -
  let ?a = "[[True, True, False], [True, False, True], [True, True, True], [True, True, True]]"
  let ?b = "[[True, True, True], [True, True, False], [True, True, True], [True, False, True]]"
  let ?df = "[sample_raw 1, sample_raw 2, sample_raw 3]"
  have h: "mset ?a = mset ?b" by simp
  have e: "apply_masks ?df ?b = Inr [sample_raw 1]"
    by (simp add: apply_masks_def reduce_def mask_and_def select_def)
  have "apply_masks ?df ?a = apply_masks ?df ?b"
    by (rule apply_masks_order_independent [THEN conjunct1, THEN mp, OF h])
  then have "apply_masks ?df ?a = Inr [sample_raw 1]"
    by (simp only: e)
  with h e show ?thesis by (intro conjI)
qed

text \<open>
  The four masks that \<open>process_lh\<close> passes to \<open>apply_masks\<close> are row-wise: when a mask is
  computed without an exception, its value at a row depends on that row and the
  configuration only.
\<close>

lemma column_rowwise:
  "column f xs = Inr ys \<Longrightarrow> map (\<lambda>x. f x) xs = map Inr ys"
  by (induction xs arbitrary: ys) (auto split: sum.splits)

lemma vacation_mask_rowwise:
  assumes "vacation_mask df c = Inr m"
  obtains vac where "vacation_days c = Inr vac" and "m = map (\<lambda>x. date x \<notin> set vac) df"
  using assms by (auto simp: vacation_mask_def split: sum.splits)

lemma bank_holiday_mask_rowwise:
  assumes "bank_holiday_mask provider df c year = Inr m"
  obtains hs where "bank_holidays provider c year = Inr hs"
    and "m = map (\<lambda>x. date x \<notin> set hs) df"
  using assms by (auto simp: bank_holiday_mask_def split: sum.splits)

lemma worktime_mask_rowwise:
  assumes "worktime_mask df c = Inr m"
  obtains w0 w1 rest where "worktimes c = w0 # w1 # rest"
    and "m = map (\<lambda>x. between (daytime x) w0 w1) df"
  using assms by (auto simp: worktime_mask_def split: list.splits)

lemma workdays_mask_rowwise:
  assumes "workdays_mask py_int df c = Inr m"
  shows "m = map (\<lambda>x. case astype_int py_int (weekday x) of
                          Inl e \<Rightarrow> False | Inr w \<Rightarrow> w \<in> set (workdays c)) df"
proof -
  from assms obtain ws where ws: "column (astype_int py_int) (map weekday df) = Inr ws"
    and m: "m = map (\<lambda>w. w \<in> set (workdays c)) ws"
    by (auto simp: workdays_mask_def split: sum.splits)
  have eq: "map (\<lambda>x. astype_int py_int (weekday x)) df = map Inr ws"
    using column_rowwise [OF ws] by (simp add: comp_def)
  have "map (\<lambda>r. case r of Inl e \<Rightarrow> False | Inr w \<Rightarrow> w \<in> set (workdays c))
          (map (\<lambda>x. astype_int py_int (weekday x)) df)
        = map (\<lambda>r. case r of Inl e \<Rightarrow> False | Inr w \<Rightarrow> w \<in> set (workdays c))
            (map Inr ws :: (error + int) list)"
    unfolding eq by (rule refl)
  then show ?thesis unfolding m by (simp add: comp_def)
qed

subsection \<open>The year filter\<close>

lemma column_Inr:
  assumes "\<And>x. x \<in> set xs \<Longrightarrow> f x = Inr (g x)"
  shows "column f xs = Inr (map g xs)"
  using assms by (induction xs) simp_all

lemma to_datetime_in_range:
  assumes "- 9223372036854 \<le> t" and "t \<le> 9223372036854"
  shows "to_datetime t = Inr t"
  using assms by (simp add: to_datetime_def)

lemma time_with_time: "timed_point.time (with_time x t) = t"
  by (simp add: with_time_def)

lemma wrap64_in_range:
  assumes "- 9223372036854775808 \<le> n" and "n < 9223372036854775808"
  shows "wrap64 n = n"
proof -
  have "(n + 9223372036854775808) mod 18446744073709551616 = n + 9223372036854775808"
    using assms by (intro mod_pos_pos_trivial) simp_all
  then show ?thesis by (simp add: wrap64_def)
qed

text \<open>
  Where the local instant fits the 64-bit count of nanoseconds, \<open>.dt.year\<close> is the
  calendar year of the specification.
\<close>

lemma dt_year_local_year:
  assumes "- 9223372036854 \<le> t + off" and "t + off \<le> 9223372036854"
  shows "dt_year off t = Some (local_year off t)"
proof -
  define n where "n = (t + off) * 1000000"
  have lo: "- 9223372036854000000 \<le> n" and hi: "n \<le> 9223372036854000000"
    using assms by (simp_all add: n_def)
  have w: "wrap64 n = n"
    using lo hi by (intro wrap64_in_range) simp_all
  have nat: "n \<noteq> - 9223372036854775808" using lo by simp
  have "n div (86400000 * 1000000) = (t + off) div 86400000"
    unfolding n_def by (rule div_mult_mult2) simp
  then have d: "n div 86400000000000 = (t + off) div 86400000" by simp
  show ?thesis
    unfolding dt_year_def local_year_def Let_def n_def [symmetric] w d
    using nat by simp
qed

text \<open>
  Outside that range the two differ: at the last instant of a Timestamp, with the offset
  of two hours, the local instant wraps around to the year 1677.
\<close>

lemma dt_year_wraps_at_limit:
  "dt_year 7200000 9223372036854 = Some 1677 \<and> local_year 7200000 9223372036854 = 2262"
  by code_simp

text \<open>
  C8: on a frame of numeric timestamps whose instants and local instants are within the
  range of a Timestamp, \<open>filter_year\<close> returns, in order, exactly the points whose
  calendar year in the target zone equals the requested year: the year is taken of the
  instant shifted by the zone's UTC offset, not of the UTC instant.
\<close>

theorem filter_year_local_year:
  assumes "map timestampMs df = map Numeric ts"
    and "\<forall>t \<in> set ts. - 9223372036854 \<le> t \<and> t \<le> 9223372036854
           \<and> - 9223372036854 \<le> t + utcoffset t \<and> t + utcoffset t \<le> 9223372036854"
  shows "filter_year utcoffset df year
           = Inr (map (\<lambda>(x, t). with_time x t)
                    (filter (\<lambda>(x, t). local_year (utcoffset t) t = year) (zip df ts)))"
proof -
  have n: "column to_numeric (map timestampMs df) = Inr ts"
    unfolding assms(1) using column_map [of to_numeric Numeric id ts]
    by (simp add: to_numeric_def)
  have d: "column to_datetime ts = Inr ts"
    using column_Inr [of ts to_datetime id] assms(2) by (simp add: to_datetime_in_range)
  have y: "dt_year (utcoffset t) t = Some (local_year (utcoffset t) t)"
    if "(x, t) \<in> set (zip df ts)" for x t
  proof -
    have "t \<in> set ts" using that by (rule set_zip_rightD)
    with assms(2) show ?thesis
      by (intro dt_year_local_year) auto
  qed
  have "filter (\<lambda>x. dt_year (utcoffset (timed_point.time x)) (timed_point.time x) = Some year)
          (map2 with_time df ts)
        = map (\<lambda>(x, t). with_time x t)
            (filter (\<lambda>(x, t). dt_year (utcoffset t) t = Some year) (zip df ts))"
    by (simp add: filter_map comp_def case_prod_unfold time_with_time)
  also have "filter (\<lambda>(x, t). dt_year (utcoffset t) t = Some year) (zip df ts)
        = filter (\<lambda>(x, t). local_year (utcoffset t) t = year) (zip df ts)"
    by (rule filter_cong) (auto simp: y)
  finally show ?thesis
    by (simp add: filter_year_def n d)
qed

text \<open>
  2022-12-31 23:30 UTC is 2023-01-01 00:30 at the offset of one hour that
  \<open>Europe/Berlin\<close> has in winter: the point is kept for 2023 and dropped for 2022,
  although its UTC year is 2022.
\<close>

theorem filter_year_local_year_witness:
  "filter_year (\<lambda>t. 3600000) [sample_raw 1672529400000, sample_raw 1669852800000] 2023
     = Inr [with_time (sample_raw 1672529400000) 1672529400000]
   \<and> filter_year (\<lambda>t. 3600000) [sample_raw 1672529400000, sample_raw 1669852800000] 2022
     = Inr [with_time (sample_raw 1669852800000) 1669852800000]
   \<and> local_year 0 1672529400000 = 2022 \<and> local_year 3600000 1672529400000 = 2023"
proof -
  let ?df = "[sample_raw 1672529400000, sample_raw 1669852800000]"
  let ?ts = "[1672529400000, 1669852800000] :: int list"
  let ?off = "\<lambda>t :: int. 3600000 :: int"
  have a: "map timestampMs ?df = map Numeric ?ts"
    by (simp add: sample_raw_def)
  have b: "\<forall>t \<in> set ?ts. - 9223372036854 \<le> t \<and> t \<le> 9223372036854
             \<and> - 9223372036854 \<le> t + ?off t \<and> t + ?off t \<le> 9223372036854"
    by simp
  have y0: "local_year 0 1672529400000 = 2022"
    by code_simp
  have y1: "local_year 3600000 1672529400000 = 2023"
    by code_simp
  have y2: "local_year 3600000 1669852800000 = 2022"
    by code_simp
  have "filter_year ?off ?df 2023
          = Inr [with_time (sample_raw 1672529400000) 1672529400000]"
    unfolding filter_year_local_year [of ?df ?ts ?off, OF a b] by (simp add: y1 y2)
  moreover have "filter_year ?off ?df 2022
          = Inr [with_time (sample_raw 1669852800000) 1669852800000]"
    unfolding filter_year_local_year [of ?df ?ts ?off, OF a b] by (simp add: y1 y2)
  ultimately show ?thesis using y0 y1 by (intro conjI)
qed

end
